theory Spec2Isabelle
  imports Main "HOL-Library.Sublist"
begin

section \<open>The chat relay of api/app.py\<close>

text \<open>
  The service has two routes: POST /api/chat, which probes a fixed list of models with
  the caller's key and relays the streamed completion of the first one that answers,
  and GET /api/health. The handler talks to two collaborators, the constructor of the
  OpenAI client and the method \<open>client.chat.completions.create\<close>; both are
  parameters of the model. Every call the handler makes is appended to a log, so that
  what was sent upstream, and how often, is part of the result.

  Python's \<open>str\<close> is modelled by \<open>string\<close>; letter case is the one of ASCII.
\<close>

subsection \<open>Strings: \<open>in\<close> and \<open>lower\<close>\<close>

text \<open>\<open>needle in hay\<close> on Python strings: \<open>needle\<close> occurs as a contiguous run.\<close>

fun str_in :: "string \<Rightarrow> string \<Rightarrow> bool" where
  "str_in needle [] = (needle = [])"
| "str_in needle (c # cs) = (prefix needle (c # cs) \<or> str_in needle cs)"

definition ascii_uppercase :: string where
  "ascii_uppercase = ''ABCDEFGHIJKLMNOPQRSTUVWXYZ''"

definition ascii_lowercase :: string where
  "ascii_lowercase = ''abcdefghijklmnopqrstuvwxyz''"

definition lower_char :: "char \<Rightarrow> char" where
  "lower_char c =
     (case map_of (zip ascii_uppercase ascii_lowercase) c of None \<Rightarrow> c | Some d \<Rightarrow> d)"

text \<open>\<open>s.lower()\<close> on ASCII text: the letters A to Z are replaced, every other
  character is kept. (Python also lowers letters outside ASCII; statements about all
  texts are confined to ASCII ones.)\<close>

definition lower :: "string \<Rightarrow> string" where
  "lower s = map lower_char s"

subsection \<open>Requests, exceptions, upstream calls\<close>

text \<open>
  \<open>class ChatRequest(BaseModel)\<close>: three fields of type \<open>str\<close> without a default
  and \<open>model: Optional[str] = "gpt-4.1"\<close>.
\<close>

record ChatRequest =
  developer_message :: string
  user_message :: string
  model :: "string option"
  api_key :: string

text \<open>
  A member of the JSON body, as far as the schema tells values apart: \<open>null\<close> or a
  string. (Members of other JSON types are outside the model.)
\<close>

datatype json = JNull | JString string

text \<open>A field annotated \<open>str\<close> with no default: it must be present and be a string.\<close>

definition required_str :: "(string \<rightharpoonup> json) \<Rightarrow> string \<Rightarrow> string option" where
  "required_str body k = (case body k of Some (JString s) \<Rightarrow> Some s | _ \<Rightarrow> None)"

text \<open>
  \<open>Optional[str] = "gpt-4.1"\<close>: an absent member takes the default, \<open>null\<close> is
  accepted as \<open>None\<close>.
\<close>

definition optional_model :: "(string \<rightharpoonup> json) \<Rightarrow> string option" where
  "optional_model body =
     (case body ''model'' of
        None \<Rightarrow> Some ''gpt-4.1''
      | Some JNull \<Rightarrow> None
      | Some (JString s) \<Rightarrow> Some s)"

text \<open>
  Validation of the body against \<open>ChatRequest\<close>, done by the framework before the
  handler is called; \<open>None\<close> is the validation error.
\<close>

definition validate_ChatRequest :: "(string \<rightharpoonup> json) \<Rightarrow> ChatRequest option" where
  "validate_ChatRequest body =
     (case required_str body ''developer_message'' of
        None \<Rightarrow> None
      | Some d \<Rightarrow>
     (case required_str body ''user_message'' of
        None \<Rightarrow> None
      | Some u \<Rightarrow>
     (case required_str body ''api_key'' of
        None \<Rightarrow> None
      | Some k \<Rightarrow>
          Some \<lparr>developer_message = d, user_message = u,
                model = optional_model body, api_key = k\<rparr>)))"

text \<open>
  An exception object raised by a collaborator, as the handler observes it: \<open>str e\<close>
  is \<open>str(e)\<close>, and \<open>as_http e\<close> is the status code and detail when \<open>e\<close> is an
  instance of \<open>HTTPException\<close>. Only instances of \<open>Exception\<close> are modelled (what
  \<open>except Exception\<close> catches); an exception object is truthy.
\<close>

datatype exn = Exn (as_http: "(nat \<times> string) option") (str: string)

text \<open>The keyword arguments of one call of \<open>client.chat.completions.create\<close>,
  with the key of the client that makes it.\<close>

record call =
  call_api_key :: string
  call_model :: string
  messages :: "(string \<times> string) list"
  max_tokens :: "nat option"
  stream :: bool

text \<open>
  A streamed chunk is read through \<open>chunk.choices[0].delta.content\<close> only: a chunk
  is the list of the contents of its choices, \<open>None\<close> where the delta has no content.
\<close>

type_synonym chunk = "string option list"

text \<open>
  What \<open>create\<close> returns: the chunks the object yields when iterated and, when the
  iteration fails after them, the exception. The object returned by a non-streaming
  call is bound to \<open>test_response\<close> and never read.
\<close>

datatype reply = Reply (chunks: "chunk list") (failure: "exn option")

text \<open>
  The collaborators: \<open>OpenAI(api_key=k)\<close> builds the client or raises (\<open>Some e\<close>);
  \<open>create\<close> returns or raises (\<open>Inl e\<close>).
\<close>

record env =
  OpenAI :: "string \<Rightarrow> exn option"
  create :: "call \<Rightarrow> exn + reply"

text \<open>What one request leaves behind: the keys the client constructor was called with,
  the upstream calls made, the lines printed.\<close>

record world =
  clients :: "string list"
  calls :: "call list"
  stdout :: "string list"

definition print :: "string \<Rightarrow> world \<Rightarrow> world" where
  "print line w = w\<lparr>stdout := stdout w @ [line]\<rparr>"

definition send :: "call \<Rightarrow> world \<Rightarrow> world" where
  "send c w = w\<lparr>calls := calls w @ [c]\<rparr>"

subsection \<open>The probing loop\<close>

definition MODEL_CANDIDATES :: "string list" where
  "MODEL_CANDIDATES = [''gpt-4.1-nano'', ''gpt-4.1-mini'', ''gpt-3.5-turbo'', ''gpt-4.1'']"

text \<open>The test request of the loop body.\<close>

definition probe_call :: "string \<Rightarrow> string \<Rightarrow> call" where
  "probe_call key model_name =
     \<lparr>call_api_key = key, call_model = model_name,
      messages = [(''user'', ''test'')], max_tokens = Some 1, stream = False\<rparr>"

text \<open>
  \<open>for model_name in ...\<close> with the two variables it assigns, \<open>working_model\<close> and
  \<open>last_exception\<close>: a probe that returns sets the first and breaks, one that raises
  sets the second and continues.
\<close>

fun probe_loop ::
  "env \<Rightarrow> string \<Rightarrow> string list \<Rightarrow> string option \<Rightarrow> exn option \<Rightarrow> world
     \<Rightarrow> (string option \<times> exn option) \<times> world" where
  "probe_loop env key [] working_model last_exception w =
     ((working_model, last_exception), w)"
| "probe_loop env key (model_name # rest) working_model last_exception w =
     (let w1 = send (probe_call key model_name) w in
      case create env (probe_call key model_name) of
        Inr test_response \<Rightarrow>
          ((Some model_name, last_exception),
           print (''Model '' @ model_name @ '' is working'') w1)
      | Inl e \<Rightarrow>
          probe_loop env key rest working_model (Some e)
            (print (''Model '' @ model_name @ '' failed: '' @ str e) w1))"

subsection \<open>Classification of a total failure\<close>

text \<open>The \<open>if\<close>/\<open>elif\<close> chain over \<open>error_message\<close>, giving the status code.\<close>

definition error_status :: "string \<Rightarrow> nat" where
  "error_status error_message =
     (if str_in ''insufficient_quota'' error_message \<or> str_in ''quota'' (lower error_message)
      then 429
      else if str_in ''model_not_found'' error_message
      then 404
      else if str_in ''authentication'' (lower error_message)
            \<or> str_in ''invalid_api_key'' (lower error_message)
      then 401
      else 500)"

text \<open>\<open>str(last_exception) if last_exception else "No models available"\<close>.\<close>

definition error_message_of :: "exn option \<Rightarrow> string" where
  "error_message_of last_exception =
     (case last_exception of Some e \<Rightarrow> str e | None \<Rightarrow> ''No models available'')"

text \<open>\<open>not working_model\<close>: \<open>None\<close> and the empty string are falsy.\<close>

definition not_working :: "string option \<Rightarrow> bool" where
  "not_working working_model = (case working_model of None \<Rightarrow> True | Some m \<Rightarrow> m = [])"

subsection \<open>The generator\<close>

definition stream_call :: "string \<Rightarrow> string \<Rightarrow> string \<Rightarrow> call" where
  "stream_call key working_model content =
     \<lparr>call_api_key = key, call_model = working_model,
      messages = [(''user'', content)], max_tokens = None, stream = True\<rparr>"

definition IndexError :: exn where
  "IndexError = Exn None ''list index out of range''"

text \<open>
  \<open>for chunk in stream\<close>: the fragments yielded, and the exception that ends the
  generator if there is one. \<open>chunk.choices[0]\<close> raises on a chunk without choices.
\<close>

fun relay :: "chunk list \<Rightarrow> exn option \<Rightarrow> string list \<times> exn option" where
  "relay [] fail = ([], fail)"
| "relay ([] # rest) fail = ([], Some IndexError)"
| "relay ((None # others) # rest) fail = relay rest fail"
| "relay ((Some content # others) # rest) fail =
     (let (fragments, ending) = relay rest fail in (content # fragments, ending))"

text \<open>\<open>generate()\<close>, run to its end.\<close>

definition generate ::
  "env \<Rightarrow> string \<Rightarrow> string \<Rightarrow> string \<Rightarrow> world \<Rightarrow> (string list \<times> exn option) \<times> world" where
  "generate env key working_model content w =
     (let w1 = send (stream_call key working_model content) w in
      case create env (stream_call key working_model content) of
        Inl e \<Rightarrow> (([], Some e), w1)
      | Inr s \<Rightarrow> (relay (chunks s) (failure s), w1))"

subsection \<open>The handlers\<close>

text \<open>
  How control leaves the body of the outer \<open>try\<close>: an \<open>HTTPException\<close> raised by the
  handler itself, an exception of a collaborator passing through, or the \<open>return\<close> of
  the streaming response, given by the arguments its generator was closed over.
\<close>

datatype outcome =
  Raise_HTTPException nat string
| Raise exn
| Return_StreamingResponse string string string

text \<open>
  The response the client gets. \<open>ValidationError\<close> is the framework's 422;
  \<open>ErrorResponse s d\<close> is status \<open>s\<close> with body \<open>{"detail": d}\<close>;
  \<open>StreamingResponse\<close> is status 200, text/plain, with the fragments written to the
  body in order and the exception that cut the body short, if any;
  \<open>JSONResponse\<close> is status 200 with a JSON object.
\<close>

datatype response =
  ValidationError
| ErrorResponse nat string
| StreamingResponse "string list" "exn option"
| JSONResponse "(string \<times> string) list"

fun status_code :: "response \<Rightarrow> nat" where
  "status_code ValidationError = 422"
| "status_code (ErrorResponse s d) = s"
| "status_code (StreamingResponse fragments ending) = 200"
| "status_code (JSONResponse obj) = 200"

text \<open>The block under \<open>if not working_model:\<close>; each of its branches raises.\<close>

definition total_failure :: "exn option \<Rightarrow> world \<Rightarrow> outcome \<times> world" where
  "total_failure last_exception w =
     (let error_message = error_message_of last_exception;
          w1 = print (''All models failed. Last error: '' @ error_message) w
      in (Raise_HTTPException (error_status error_message) error_message, w1))"

text \<open>The body of the outer \<open>try\<close>, up to \<open>return StreamingResponse(...)\<close>.\<close>

definition chat_try :: "env \<Rightarrow> ChatRequest \<Rightarrow> world \<Rightarrow> outcome \<times> world" where
  "chat_try env request w =
     (let w0 = w\<lparr>clients := clients w @ [api_key request]\<rparr> in
      case OpenAI env (api_key request) of
        Some e \<Rightarrow> (Raise e, w0)
      | None \<Rightarrow>
          (let ((working_model, last_exception), w1) =
                 probe_loop env (api_key request) MODEL_CANDIDATES None None w0
           in case working_model of
                None \<Rightarrow> total_failure last_exception w1
              | Some m \<Rightarrow>
                  if not_working working_model
                  then total_failure last_exception w1
                  else (Return_StreamingResponse (api_key request) m
                          (user_message request), w1)))"

text \<open>
  The \<open>except\<close> clauses and the delivery of the result: an \<open>HTTPException\<close> is
  re-raised and becomes the error response, any other exception becomes status 500,
  a returned streaming response has its generator run.
\<close>

definition chat :: "env \<Rightarrow> ChatRequest \<Rightarrow> world \<Rightarrow> response \<times> world" where
  "chat env request w =
     (case chat_try env request w of
        (Raise_HTTPException s d, w1) \<Rightarrow> (ErrorResponse s d, w1)
      | (Raise e, w1) \<Rightarrow>
          (case as_http e of
             Some (s, d) \<Rightarrow> (ErrorResponse s d, w1)
           | None \<Rightarrow>
               (ErrorResponse 500 (str e), print (''Error in /api/chat: '' @ str e) w1))
      | (Return_StreamingResponse key working_model content, w1) \<Rightarrow>
          (let ((fragments, ending), w2) = generate env key working_model content w1
           in (StreamingResponse fragments ending, w2)))"

text \<open>POST /api/chat: the body is validated, then the handler runs.\<close>

definition post_api_chat :: "env \<Rightarrow> (string \<rightharpoonup> json) \<Rightarrow> world \<Rightarrow> response \<times> world" where
  "post_api_chat env body w =
     (case validate_ChatRequest body of
        None \<Rightarrow> (ValidationError, w)
      | Some request \<Rightarrow> chat env request w)"

text \<open>\<open>health_check()\<close> takes no argument and returns a constant.\<close>

definition health_check :: "world \<Rightarrow> response \<times> world" where
  "health_check w = (JSONResponse [(''status'', ''ok'')], w)"

text \<open>GET /api/health: whatever the request carries, nothing of it reaches the handler.\<close>

definition get_api_health :: "env \<Rightarrow> (string \<rightharpoonup> json) \<Rightarrow> world \<Rightarrow> response \<times> world" where
  "get_api_health env query w = health_check w"

subsection \<open>The classification in the words of the specification\<close>






subsection \<open>Concrete requests and collaborators\<close>

text \<open>Inputs on which the theorems below are evaluated.\<close>

definition world0 :: world where
  "world0 = \<lparr>clients = [], calls = [], stdout = []\<rparr>"

definition request0 :: ChatRequest where
  "request0 = \<lparr>developer_message = ''Be brief'', user_message = ''Hi'',
               model = Some ''gpt-4o'', api_key = ''sk-1''\<rparr>"

text \<open>A collaborator for which the probes of the models in \<open>bad\<close> raise an exception
  with text \<open>msg\<close>, every other probe returns, and the streaming call yields \<open>cs\<close>.\<close>

definition upstream :: "string list \<Rightarrow> string \<Rightarrow> chunk list \<Rightarrow> env" where
  "upstream bad msg cs =
     \<lparr>OpenAI = (\<lambda>k. None),
      create = (\<lambda>c. if stream c then Inr (Reply cs None)
                     else if call_model c \<in> set bad then Inl (Exn None msg)
                     else Inr (Reply [] None))\<rparr>"

text \<open>A collaborator whose client constructor raises \<open>e\<close>.\<close>

definition no_client :: "exn \<Rightarrow> env" where
  "no_client e = \<lparr>OpenAI = (\<lambda>k. Some e), create = (\<lambda>c. Inr (Reply [] None))\<rparr>"

section \<open>Properties\<close>

subsection \<open>Auxiliary facts\<close>

lemma str_in_sublist: "str_in n h = sublist n h"
  by (induction h) (auto simp: sublist_Cons_right)

lemma candidates_nonempty: "m \<in> set MODEL_CANDIDATES \<Longrightarrow> m \<noteq> []"
  by (auto simp: MODEL_CANDIDATES_def)

text \<open>The loop when every probe raises: all candidates are tried, the exception kept is
  the one of the last candidate.\<close>

lemma probe_loop_all_fail:
  assumes "\<forall>m \<in> set ms. isl (create env (probe_call key m))"
  shows "probe_loop env key ms wm le w =
     ((wm, if ms = [] then le else Some (projl (create env (probe_call key (last ms))))),
      w\<lparr>calls := calls w @ map (probe_call key) ms,
        stdout := stdout w @
          map (\<lambda>m. ''Model '' @ m @ '' failed: '' @ str (projl (create env (probe_call key m)))) ms\<rparr>)"
  using assms
proof (induction ms arbitrary: le w)
  case Nil
  show ?case by simp
next
  case (Cons m ms)
  from Cons.prems obtain e where e: "create env (probe_call key m) = Inl e"
    by (cases "create env (probe_call key m)") auto
  from Cons.prems have rest: "\<forall>m \<in> set ms. isl (create env (probe_call key m))"
    by simp
  show ?case
    by (simp add: e Cons.IH [OF rest] send_def print_def)
qed

text \<open>The loop when \<open>m\<close> is the first candidate whose probe returns.\<close>

lemma probe_loop_success:
  assumes "\<forall>m \<in> set pre. isl (create env (probe_call key m))"
    and "\<not> isl (create env (probe_call key m))"
  shows "probe_loop env key (pre @ m # post) wm le w =
     ((Some m, if pre = [] then le else Some (projl (create env (probe_call key (last pre))))),
      w\<lparr>calls := calls w @ map (probe_call key) (pre @ [m]),
        stdout := stdout w @
          map (\<lambda>m. ''Model '' @ m @ '' failed: '' @ str (projl (create env (probe_call key m)))) pre
          @ [''Model '' @ m @ '' is working'']\<rparr>)"
  using assms(1)
proof (induction pre arbitrary: le w)
  case Nil
  from assms(2) obtain r where "create env (probe_call key m) = Inr r"
    by (cases "create env (probe_call key m)") auto
  then show ?case by (simp add: send_def print_def)
next
  case (Cons p pre)
  from Cons.prems obtain e where e: "create env (probe_call key p) = Inl e"
    by (cases "create env (probe_call key p)") auto
  from Cons.prems have rest: "\<forall>m \<in> set pre. isl (create env (probe_call key m))"
    by simp
  show ?case
    by (simp add: e Cons.IH [OF rest] send_def print_def)
qed

lemma probe_loop_index:
  assumes "i < length ms"
    and "\<forall>j<i. isl (create env (probe_call key (ms ! j)))"
    and "\<not> isl (create env (probe_call key (ms ! i)))"
  shows "probe_loop env key ms wm le w =
     ((Some (ms ! i),
       if i = 0 then le else Some (projl (create env (probe_call key (ms ! (i - 1)))))),
      w\<lparr>calls := calls w @ map (probe_call key) (take (Suc i) ms),
        stdout := stdout w @
          map (\<lambda>m. ''Model '' @ m @ '' failed: '' @ str (projl (create env (probe_call key m))))
            (take i ms)
          @ [''Model '' @ ms ! i @ '' is working'']\<rparr>)"
proof -
  have split: "ms = take i ms @ ms ! i # drop (Suc i) ms"
    using assms(1) by (rule id_take_nth_drop)
  have pre: "\<forall>m \<in> set (take i ms). isl (create env (probe_call key m))"
    using assms(1,2) by (auto simp: in_set_conv_nth)
  have lst: "i \<noteq> 0 \<Longrightarrow> last (take i ms) = ms ! (i - 1)"
    using assms(1) by (cases i) (simp_all add: take_Suc_conv_app_nth)
  have tk: "take (Suc i) ms = take i ms @ [ms ! i]"
    using assms(1) by (simp add: take_Suc_conv_app_nth)
  have "probe_loop env key (take i ms @ ms ! i # drop (Suc i) ms) wm le w =
     ((Some (ms ! i),
       if i = 0 then le else Some (projl (create env (probe_call key (ms ! (i - 1)))))),
      w\<lparr>calls := calls w @ map (probe_call key) (take (Suc i) ms),
        stdout := stdout w @
          map (\<lambda>m. ''Model '' @ m @ '' failed: '' @ str (projl (create env (probe_call key m))))
            (take i ms)
          @ [''Model '' @ ms ! i @ '' is working'']\<rparr>)"
    unfolding probe_loop_success [OF pre assms(3)] tk
    using assms(1) lst by auto
  with split show ?thesis by simp
qed

lemma last_candidate: "last MODEL_CANDIDATES = ''gpt-4.1''" "MODEL_CANDIDATES \<noteq> []"
  by (simp_all add: MODEL_CANDIDATES_def)

lemma chat_all_fail:
  assumes "OpenAI env (api_key r) = None"
    and "\<forall>m \<in> set MODEL_CANDIDATES. isl (create env (probe_call (api_key r) m))"
  shows "chat env r w =
     (ErrorResponse (error_status (str (projl (create env (probe_call (api_key r) ''gpt-4.1'')))))
        (str (projl (create env (probe_call (api_key r) ''gpt-4.1'')))),
      w\<lparr>clients := clients w @ [api_key r],
        calls := calls w @ map (probe_call (api_key r)) MODEL_CANDIDATES,
        stdout := stdout w @
          map (\<lambda>m. ''Model '' @ m @ '' failed: ''
                 @ str (projl (create env (probe_call (api_key r) m)))) MODEL_CANDIDATES
          @ [''All models failed. Last error: ''
               @ str (projl (create env (probe_call (api_key r) ''gpt-4.1'')))]\<rparr>)"
  by (simp add: chat_def chat_try_def assms(1) probe_loop_all_fail [OF assms(2)]
      last_candidate total_failure_def error_message_of_def print_def Let_def)

lemma chat_success:
  assumes "OpenAI env (api_key r) = None"
    and "i < length MODEL_CANDIDATES"
    and "\<forall>j<i. isl (create env (probe_call (api_key r) (MODEL_CANDIDATES ! j)))"
    and "\<not> isl (create env (probe_call (api_key r) (MODEL_CANDIDATES ! i)))"
  shows "chat env r w =
     (case create env (stream_call (api_key r) (MODEL_CANDIDATES ! i) (user_message r)) of
        Inl e \<Rightarrow> StreamingResponse [] (Some e)
      | Inr s \<Rightarrow> StreamingResponse (fst (relay (chunks s) (failure s)))
                   (snd (relay (chunks s) (failure s))),
      w\<lparr>clients := clients w @ [api_key r],
        calls := calls w @ map (probe_call (api_key r)) (take (Suc i) MODEL_CANDIDATES)
                 @ [stream_call (api_key r) (MODEL_CANDIDATES ! i) (user_message r)],
        stdout := stdout w @
          map (\<lambda>m. ''Model '' @ m @ '' failed: ''
                 @ str (projl (create env (probe_call (api_key r) m)))) (take i MODEL_CANDIDATES)
          @ [''Model '' @ MODEL_CANDIDATES ! i @ '' is working'']\<rparr>)"
proof -
  have ne: "MODEL_CANDIDATES ! i \<noteq> []"
    using assms(2) candidates_nonempty by simp
  show ?thesis
    by (simp add: chat_def chat_try_def assms(1) probe_loop_index [OF assms(2,3,4)]
        not_working_def ne generate_def send_def Let_def split: sum.split prod.split)
qed

lemma chat_no_client:
  assumes "OpenAI env (api_key r) = Some e"
  shows "chat env r w =
     (case as_http e of
        Some (s, d) \<Rightarrow> (ErrorResponse s d, w\<lparr>clients := clients w @ [api_key r]\<rparr>)
      | None \<Rightarrow> (ErrorResponse 500 (str e),
                 w\<lparr>clients := clients w @ [api_key r],
                   stdout := stdout w @ [''Error in /api/chat: '' @ str e]\<rparr>))"
  by (simp add: chat_def chat_try_def assms print_def Let_def split: option.split)

lemma first_success:
  assumes "\<not> (\<forall>m \<in> set ms. isl (create env (probe_call key m)))"
  shows "\<exists>pre m post. ms = pre @ m # post
            \<and> (\<forall>p \<in> set pre. isl (create env (probe_call key p)))
            \<and> \<not> isl (create env (probe_call key m))"
proof -
  from assms have "\<exists>m \<in> set ms. \<not> isl (create env (probe_call key m))" by simp
  from split_list_first_prop [OF this] show ?thesis by auto
qed

lemma first_success_index:
  assumes "\<not> (\<forall>m \<in> set ms. isl (create env (probe_call key m)))"
  shows "\<exists>i<length ms. (\<forall>j<i. isl (create env (probe_call key (ms ! j))))
            \<and> \<not> isl (create env (probe_call key (ms ! i)))"
proof -
  from first_success [OF assms] obtain pre m post where
    ms: "ms = pre @ m # post"
    and pre: "\<forall>p \<in> set pre. isl (create env (probe_call key p))"
    and m: "\<not> isl (create env (probe_call key m))"
    by blast
  have "length pre < length ms" using ms by simp
  moreover have "\<forall>j<length pre. isl (create env (probe_call key (ms ! j)))"
    using pre ms by (simp add: nth_append)
  moreover have "\<not> isl (create env (probe_call key (ms ! length pre)))"
    using m ms by simp
  ultimately show ?thesis by blast
qed

lemma chat_calls:
  "\<exists>n tail. calls (snd (chat env r w)) =
       calls w @ map (probe_call (api_key r)) (take n MODEL_CANDIDATES) @ tail
     \<and> (tail = [] \<or>
         (\<exists>m \<in> set MODEL_CANDIDATES. tail = [stream_call (api_key r) m (user_message r)]))"
proof (cases "OpenAI env (api_key r)")
  case (Some e)
  have "calls (snd (chat env r w)) = calls w"
    by (simp add: chat_no_client [OF Some] split: option.split)
  then show ?thesis
    by (intro exI [of _ 0] exI [of _ "[]"]) simp
next
  case None
  show ?thesis
  proof (cases "\<forall>m \<in> set MODEL_CANDIDATES. isl (create env (probe_call (api_key r) m))")
    case True
    have "calls (snd (chat env r w)) =
       calls w @ map (probe_call (api_key r)) MODEL_CANDIDATES"
      by (simp add: chat_all_fail [OF None True])
    then show ?thesis
      by (intro exI [of _ "length MODEL_CANDIDATES"] exI [of _ "[]"]) simp
  next
    case False
    from first_success_index [OF False] obtain i where
      i: "i < length MODEL_CANDIDATES"
      and pre: "\<forall>j<i. isl (create env (probe_call (api_key r) (MODEL_CANDIDATES ! j)))"
      and ok: "\<not> isl (create env (probe_call (api_key r) (MODEL_CANDIDATES ! i)))"
      by blast
    have c: "calls (snd (chat env r w)) =
       calls w @ map (probe_call (api_key r)) (take (Suc i) MODEL_CANDIDATES)
         @ [stream_call (api_key r) (MODEL_CANDIDATES ! i) (user_message r)]"
      by (simp add: chat_success [OF None i pre ok])
    have m: "MODEL_CANDIDATES ! i \<in> set MODEL_CANDIDATES"
      using i by simp
    show ?thesis
      by (intro exI [of _ "Suc i"]
          exI [of _ "[stream_call (api_key r) (MODEL_CANDIDATES ! i) (user_message r)]"]
          conjI disjI2 bexI [of _ "MODEL_CANDIDATES ! i"] c m refl)
  qed
qed

text \<open>The generator: a stream whose chunks all carry a choice is relayed to its end; one
  that ends normally had only such chunks.\<close>

lemma relay_normal_end:
  "relay cs fail = (fragments, None) \<Longrightarrow>
     fail = None \<and> [] \<notin> set cs
     \<and> fragments = map the (filter (\<lambda>d. d \<noteq> None) (map hd cs))"
  by (induction cs fail arbitrary: fragments rule: relay.induct)
    (auto simp: IndexError_def split: prod.splits)

lemma relay_all_choices:
  "[] \<notin> set cs \<Longrightarrow>
     relay cs fail = (map the (filter (\<lambda>d. d \<noteq> None) (map hd cs)), fail)"
  by (induction cs fail rule: relay.induct) auto

text \<open>
  Letter case in the classification: the first test amounts to "quota" occurring in
  the lowered text, so the status depends on the text only through its lowered form
  and through the occurrence of "model_not_found" in the text as it is.
\<close>

lemma lower_literal:
  "lower ''insufficient_quota'' = ''insufficient_'' @ ''quota''"
  by (simp add: lower_def lower_char_def ascii_uppercase_def ascii_lowercase_def)

lemma quota_test:
  "(str_in ''insufficient_quota'' m \<or> str_in ''quota'' (lower m)) = sublist ''quota'' (lower m)"
proof -
  have "sublist ''quota'' (lower m)" if "sublist ''insufficient_quota'' m"
  proof -
    from that have "sublist (lower ''insufficient_quota'') (lower m)"
      unfolding lower_def by (rule map_mono_sublist)
    then have "sublist (''insufficient_'' @ ''quota'') (lower m)"
      by (simp only: lower_literal)
    moreover have "sublist ''quota'' (''insufficient_'' @ ''quota'')"
      by (rule sublist_append_leftI)
    ultimately show ?thesis
      by (rule sublist_order.order_trans [rotated])
  qed
  then show ?thesis
    unfolding str_in_sublist by blast
qed

lemma error_status_case:
  assumes "lower m = lower m'" and "str_in ''model_not_found'' m = str_in ''model_not_found'' m'"
  shows "error_status m = error_status m'"
proof -
  have "error_status x =
     (if sublist ''quota'' (lower x) then 429
      else if str_in ''model_not_found'' x then 404
      else if str_in ''authentication'' (lower x) \<or> str_in ''invalid_api_key'' (lower x)
      then 401 else 500)" for x
    unfolding error_status_def quota_test ..
  then show ?thesis
    by (simp only: assms)
qed












subsection \<open>The probing loop\<close>

text \<open>
  Claim C1. The loop goes through the candidates gpt-4.1-nano, gpt-4.1-mini,
  gpt-3.5-turbo, gpt-4.1 in this order; each probe is a non-streaming request with the
  single user message "test" and \<open>max_tokens = 1\<close>. If the candidate at position \<open>i\<close>
  (counted from 0) is the first whose probe returns, it becomes the working model, the
  calls made are exactly the probes of the candidates at positions \<open>0..i\<close>, that is
  \<open>i + 1\<close> calls and none after the success, and the last exception is the one raised
  by the probe just before (none when the first candidate answers).
\<close>

theorem probe_first_success_wins:
  assumes "i < length MODEL_CANDIDATES"
    and "\<forall>j<i. isl (create env (probe_call key (MODEL_CANDIDATES ! j)))"
    and "\<not> isl (create env (probe_call key (MODEL_CANDIDATES ! i)))"
  shows "MODEL_CANDIDATES = [''gpt-4.1-nano'', ''gpt-4.1-mini'', ''gpt-3.5-turbo'', ''gpt-4.1'']
    \<and> (\<forall>m. probe_call key m =
          \<lparr>call_api_key = key, call_model = m, messages = [(''user'', ''test'')],
           max_tokens = Some 1, stream = False\<rparr>)
    \<and> fst (probe_loop env key MODEL_CANDIDATES None None w) =
        (Some (MODEL_CANDIDATES ! i),
         if i = 0 then None
         else Some (projl (create env (probe_call key (MODEL_CANDIDATES ! (i - 1))))))
    \<and> calls (snd (probe_loop env key MODEL_CANDIDATES None None w)) =
        calls w @ map (probe_call key) (take (Suc i) MODEL_CANDIDATES)
    \<and> length (calls (snd (probe_loop env key MODEL_CANDIDATES None None w))) =
        length (calls w) + Suc i"
proof -
  have "length (take (Suc i) MODEL_CANDIDATES) = Suc i"
    using assms(1) by simp
  then show ?thesis
    by (simp add: probe_loop_index [OF assms] probe_call_def)
      (simp add: MODEL_CANDIDATES_def)
qed

theorem probe_first_success_wins_witness:
  "isl (create (upstream [''gpt-4.1-nano''] ''boom'' []) (probe_call ''sk-1'' ''gpt-4.1-nano''))
   \<and> fst (probe_loop (upstream [''gpt-4.1-nano''] ''boom'' []) ''sk-1''
            MODEL_CANDIDATES None None world0)
       = (Some ''gpt-4.1-mini'', Some (Exn None ''boom''))
   \<and> calls (snd (probe_loop (upstream [''gpt-4.1-nano''] ''boom'' []) ''sk-1''
                   MODEL_CANDIDATES None None world0))
       = [probe_call ''sk-1'' ''gpt-4.1-nano'', probe_call ''sk-1'' ''gpt-4.1-mini'']"
  using probe_first_success_wins
    [of 1 "upstream [''gpt-4.1-nano''] ''boom'' []" "''sk-1''" world0]
  by (simp add: MODEL_CANDIDATES_def upstream_def probe_call_def world0_def)

subsection \<open>Total failure\<close>




text \<open>
  Claim C10. The candidate list is not empty, so when the loop ends without a working
  model, the probe of the last candidate has raised and \<open>last_exception\<close> holds that
  exception: the message is its text, never the fallback "No models available", and
  the text is the detail of the exception the handler raises.
\<close>

theorem fallback_message_unreachable:
  assumes "not_working (fst (fst (probe_loop env key MODEL_CANDIDATES None None w)))"
  shows "MODEL_CANDIDATES \<noteq> []
    \<and> isl (create env (probe_call key (last MODEL_CANDIDATES)))
    \<and> snd (fst (probe_loop env key MODEL_CANDIDATES None None w)) =
        Some (projl (create env (probe_call key (last MODEL_CANDIDATES))))
    \<and> error_message_of (snd (fst (probe_loop env key MODEL_CANDIDATES None None w))) =
        str (projl (create env (probe_call key (last MODEL_CANDIDATES))))
    \<and> fst (total_failure (snd (fst (probe_loop env key MODEL_CANDIDATES None None w))) w') =
        Raise_HTTPException
          (error_status (str (projl (create env (probe_call key (last MODEL_CANDIDATES))))))
          (str (projl (create env (probe_call key (last MODEL_CANDIDATES)))))"
proof (cases "\<forall>m \<in> set MODEL_CANDIDATES. isl (create env (probe_call key m))")
  case True
  then have "isl (create env (probe_call key (last MODEL_CANDIDATES)))"
    using last_candidate(2) last_in_set by blast
  then show ?thesis
    by (simp add: probe_loop_all_fail [OF True] last_candidate(2) error_message_of_def
        total_failure_def Let_def)
next
  case False
  from first_success_index [OF False] obtain i where
    i: "i < length MODEL_CANDIDATES"
    and pre: "\<forall>j<i. isl (create env (probe_call key (MODEL_CANDIDATES ! j)))"
    and ok: "\<not> isl (create env (probe_call key (MODEL_CANDIDATES ! i)))"
    by blast
  have "MODEL_CANDIDATES ! i \<noteq> []"
    using i candidates_nonempty by simp
  with assms have False
    by (simp add: probe_loop_index [OF i pre ok] not_working_def)
  then show ?thesis ..
qed

theorem fallback_message_unreachable_witness:
  "not_working (fst (fst (probe_loop (upstream MODEL_CANDIDATES ''model_not_found'' []) ''sk-1''
        MODEL_CANDIDATES None None world0)))
   \<and> error_message_of (snd (fst (probe_loop (upstream MODEL_CANDIDATES ''model_not_found'' [])
        ''sk-1'' MODEL_CANDIDATES None None world0))) = ''model_not_found''"
proof -
  have h: "not_working (fst (fst (probe_loop (upstream MODEL_CANDIDATES ''model_not_found'' [])
        ''sk-1'' MODEL_CANDIDATES None None world0)))"
    by (simp add: not_working_def upstream_def MODEL_CANDIDATES_def probe_call_def)
  from fallback_message_unreachable [OF h] h show ?thesis
    by (simp add: upstream_def MODEL_CANDIDATES_def probe_call_def)
qed

subsection \<open>The \<open>except\<close> clauses\<close>

text \<open>
  Claim C9. An exception that leaves the body of the \<open>try\<close> and is not an
  \<open>HTTPException\<close>, such as one raised by the constructor of the client, becomes the
  response with status 500 and the text of the exception as detail (and a line is
  printed); an \<open>HTTPException\<close> raised in the body, which is what the classification of
  a total failure raises, reaches the client with its own status and detail.
\<close>

theorem other_exceptions_become_500:
  "(OpenAI env (api_key r) = Some e \<and> as_http e = None \<longrightarrow>
      chat env r w =
        (ErrorResponse 500 (str e),
         w\<lparr>clients := clients w @ [api_key r],
           stdout := stdout w @ [''Error in /api/chat: '' @ str e]\<rparr>))
   \<and> (chat_try env r w = (Raise e', w') \<and> as_http e' = None \<longrightarrow>
      chat env r w = (ErrorResponse 500 (str e'), print (''Error in /api/chat: '' @ str e') w'))
   \<and> (chat_try env r w = (Raise_HTTPException s d, w') \<longrightarrow>
      chat env r w = (ErrorResponse s d, w'))"
  by (simp add: chat_no_client) (simp add: chat_def)

theorem other_exceptions_become_500_witness:
  "chat (no_client (Exn None ''proxy misconfigured'')) request0 world0 =
     (ErrorResponse 500 ''proxy misconfigured'',
      \<lparr>clients = [''sk-1''], calls = [],
       stdout = [''Error in /api/chat: proxy misconfigured'']\<rparr>)
   \<and> fst (chat (upstream MODEL_CANDIDATES ''model_not_found'' []) request0 world0) =
       ErrorResponse 404 ''model_not_found''"
proof -
  have a: "chat (no_client (Exn None ''proxy misconfigured'')) request0 world0 =
     (ErrorResponse 500 ''proxy misconfigured'',
      \<lparr>clients = [''sk-1''], calls = [],
       stdout = [''Error in /api/chat: proxy misconfigured'']\<rparr>)"
    using other_exceptions_become_500
      [of "no_client (Exn None ''proxy misconfigured'')" request0
          "Exn None ''proxy misconfigured''" world0]
    by (simp add: no_client_def request0_def world0_def)
  have t: "chat_try (upstream MODEL_CANDIDATES ''model_not_found'' []) request0 world0 =
     (Raise_HTTPException 404 ''model_not_found'',
      snd (chat_try (upstream MODEL_CANDIDATES ''model_not_found'' []) request0 world0))"
    by (simp add: chat_try_def upstream_def request0_def MODEL_CANDIDATES_def probe_call_def
        total_failure_def error_message_of_def error_status_def lower_def lower_char_def
        ascii_uppercase_def ascii_lowercase_def Let_def)
  have b: "fst (chat (upstream MODEL_CANDIDATES ''model_not_found'' []) request0 world0) =
       ErrorResponse 404 ''model_not_found''"
    using other_exceptions_become_500
      [where env = "upstream MODEL_CANDIDATES ''model_not_found'' []" and r = request0
          and w = world0 and s = 404 and d = "''model_not_found''"
          and w' = "snd (chat_try (upstream MODEL_CANDIDATES ''model_not_found'' [])
                          request0 world0)"]
      t
    by simp
  from a b show ?thesis by simp
qed

subsection \<open>Validation and the health route\<close>

text \<open>
  Claim C5. A body without the member \<open>api_key\<close> or without the member
  \<open>user_message\<close> is answered with the validation error (status 422), and the world
  is left as it was: no client is constructed and no upstream call is made.
\<close>

theorem missing_field_rejected:
  assumes "body ''api_key'' = None \<or> body ''user_message'' = None"
  shows "post_api_chat env body w = (ValidationError, w)
    \<and> status_code (fst (post_api_chat env body w)) = 422"
  using assms
  by (auto simp: post_api_chat_def validate_ChatRequest_def required_str_def
      split: option.split json.split)

theorem missing_field_rejected_witness:
  "post_api_chat (upstream [] [] []) [''developer_message'' \<mapsto> JString ''Be brief'',
       ''user_message'' \<mapsto> JString ''Hi''] world0 = (ValidationError, world0)"
  using missing_field_rejected
    [of "[''developer_message'' \<mapsto> JString ''Be brief'', ''user_message'' \<mapsto> JString ''Hi'']"
        "upstream [] [] []" world0]
  by simp

text \<open>
  Claim C7. GET /api/health answers status 200 with the object \<open>{"status": "ok"}\<close>
  whatever the collaborators and the request are, and leaves the world as it was.
\<close>

theorem health_always_ok:
  "get_api_health env query w = (JSONResponse [(''status'', ''ok'')], w)
   \<and> status_code (fst (get_api_health env query w)) = 200"
  by (simp add: get_api_health_def health_check_def)

subsection \<open>What of the request reaches upstream\<close>

text \<open>
  Claim C6. Two requests with the same \<open>api_key\<close> and the same \<open>user_message\<close>,
  whatever their \<open>model\<close> and \<open>developer_message\<close>, get the same response and leave
  the same world: the same clients, the same upstream calls in the same order, the
  same printed lines. Every call the handler makes carries the key of the request and
  one of the candidate models, and its messages are either the single user message
  "test" of a probe or, for the streaming call, the single user message
  \<open>user_message\<close>; \<open>developer_message\<close> and \<open>model\<close> occur in none.
\<close>

theorem model_and_developer_message_inert:
  assumes "api_key r = api_key r'" and "user_message r = user_message r'"
  shows "chat env r w = chat env r' w
    \<and> (\<forall>c \<in> set (drop (length (calls w)) (calls (snd (chat env r w)))).
          call_api_key c = api_key r \<and> call_model c \<in> set MODEL_CANDIDATES
          \<and> (messages c = [(''user'', ''test'')] \<and> \<not> stream c
             \<or> messages c = [(''user'', user_message r)] \<and> stream c))"
proof -
  have same: "chat env r w = chat env r' w"
    unfolding chat_def chat_try_def assms by (rule refl)
  from chat_calls [of env r w] obtain n tail where
    c: "calls (snd (chat env r w)) =
       calls w @ map (probe_call (api_key r)) (take n MODEL_CANDIDATES) @ tail"
    and t: "tail = [] \<or>
         (\<exists>m \<in> set MODEL_CANDIDATES. tail = [stream_call (api_key r) m (user_message r)])"
    by blast
  have probes: "call_api_key c = api_key r \<and> call_model c \<in> set MODEL_CANDIDATES
          \<and> (messages c = [(''user'', ''test'')] \<and> \<not> stream c
             \<or> messages c = [(''user'', user_message r)] \<and> stream c)"
    if "c \<in> set (map (probe_call (api_key r)) (take n MODEL_CANDIDATES))" for c
  proof -
    from that obtain m where "m \<in> set (take n MODEL_CANDIDATES)" "c = probe_call (api_key r) m"
      by auto
    then have "m \<in> set MODEL_CANDIDATES" "c = probe_call (api_key r) m"
      by (auto dest: in_set_takeD)
    then show ?thesis by (simp add: probe_call_def)
  qed
  have final: "call_api_key c = api_key r \<and> call_model c \<in> set MODEL_CANDIDATES
          \<and> (messages c = [(''user'', ''test'')] \<and> \<not> stream c
             \<or> messages c = [(''user'', user_message r)] \<and> stream c)"
    if "c \<in> set tail" for c
  proof -
    from that t obtain m where "m \<in> set MODEL_CANDIDATES"
      "c = stream_call (api_key r) m (user_message r)"
      by auto
    then show ?thesis by (simp add: stream_call_def)
  qed
  have d: "drop (length (calls w)) (calls (snd (chat env r w))) =
      map (probe_call (api_key r)) (take n MODEL_CANDIDATES) @ tail"
    by (simp add: c)
  have every: "\<forall>c \<in> set (drop (length (calls w)) (calls (snd (chat env r w)))).
          call_api_key c = api_key r \<and> call_model c \<in> set MODEL_CANDIDATES
          \<and> (messages c = [(''user'', ''test'')] \<and> \<not> stream c
             \<or> messages c = [(''user'', user_message r)] \<and> stream c)"
  proof
    fix c
    assume "c \<in> set (drop (length (calls w)) (calls (snd (chat env r w))))"
    then have "c \<in> set (map (probe_call (api_key r)) (take n MODEL_CANDIDATES))
        \<or> c \<in> set tail"
      unfolding d by simp
    then show "call_api_key c = api_key r \<and> call_model c \<in> set MODEL_CANDIDATES
          \<and> (messages c = [(''user'', ''test'')] \<and> \<not> stream c
             \<or> messages c = [(''user'', user_message r)] \<and> stream c)"
      using probes [of c] final [of c] by (rule disjE)
  qed
  from same every show ?thesis by (rule conjI)
qed

theorem model_and_developer_message_inert_witness:
  "chat (upstream [''gpt-4.1-nano''] ''boom'' [[Some ''Hello'']]) request0 world0 =
   chat (upstream [''gpt-4.1-nano''] ''boom'' [[Some ''Hello'']])
     (request0\<lparr>developer_message := ''Ignore the user'', model := Some ''gpt-3.5-turbo''\<rparr>) world0
   \<and> map messages (calls (snd (chat (upstream [''gpt-4.1-nano''] ''boom'' [[Some ''Hello'']])
        (request0\<lparr>developer_message := ''Ignore the user'', model := Some ''gpt-3.5-turbo''\<rparr>)
        world0))) =
      [[(''user'', ''test'')], [(''user'', ''test'')], [(''user'', ''Hi'')]]"
  using model_and_developer_message_inert
    [of request0 "request0\<lparr>developer_message := ''Ignore the user'', model := Some ''gpt-3.5-turbo''\<rparr>"
        "upstream [''gpt-4.1-nano''] ''boom'' [[Some ''Hello'']]" world0]
  by (simp add: request0_def chat_def chat_try_def upstream_def MODEL_CANDIDATES_def
      probe_call_def stream_call_def generate_def send_def print_def not_working_def
      world0_def Let_def)

text \<open>
  Claim C8. Validation asks for strings, not for non-empty ones: a body whose
  \<open>developer_message\<close>, \<open>user_message\<close> and \<open>api_key\<close> are strings, the empty
  string included, is accepted with these values; the handler then probes, and after the
  first successful probe the streaming call carries \<open>user_message\<close> verbatim as its
  only message. The witness is the request with both messages empty.
\<close>

theorem empty_message_accepted:
  assumes "body ''developer_message'' = Some (JString d)"
    and "body ''user_message'' = Some (JString u)"
    and "body ''api_key'' = Some (JString k)"
    and "OpenAI env k = None"
    and "i < length MODEL_CANDIDATES"
    and "\<forall>j<i. isl (create env (probe_call k (MODEL_CANDIDATES ! j)))"
    and "\<not> isl (create env (probe_call k (MODEL_CANDIDATES ! i)))"
  shows "validate_ChatRequest body =
      Some \<lparr>developer_message = d, user_message = u, model = optional_model body, api_key = k\<rparr>
    \<and> calls (snd (post_api_chat env body w)) =
        calls w @ map (probe_call k) (take (Suc i) MODEL_CANDIDATES)
        @ [\<lparr>call_api_key = k, call_model = MODEL_CANDIDATES ! i,
            messages = [(''user'', u)], max_tokens = None, stream = True\<rparr>]"
proof -
  let ?r = "\<lparr>developer_message = d, user_message = u, model = optional_model body, api_key = k\<rparr>"
  have v: "validate_ChatRequest body = Some ?r"
    by (simp add: validate_ChatRequest_def required_str_def assms(1,2,3))
  have "calls (snd (chat env ?r w)) =
        calls w @ map (probe_call k) (take (Suc i) MODEL_CANDIDATES)
        @ [stream_call k (MODEL_CANDIDATES ! i) u]"
    using chat_success [of env ?r i w] assms(4,5,6,7) by simp
  with v show ?thesis
    by (simp add: post_api_chat_def stream_call_def)
qed

theorem empty_message_accepted_witness:
  "validate_ChatRequest [''developer_message'' \<mapsto> JString '''', ''user_message'' \<mapsto> JString '''',
       ''api_key'' \<mapsto> JString ''sk-1''] =
     Some \<lparr>developer_message = '''', user_message = '''', model = Some ''gpt-4.1'',
           api_key = ''sk-1''\<rparr>
   \<and> calls (snd (post_api_chat (upstream [] [] [])
       [''developer_message'' \<mapsto> JString '''', ''user_message'' \<mapsto> JString '''',
        ''api_key'' \<mapsto> JString ''sk-1''] world0)) =
     [probe_call ''sk-1'' ''gpt-4.1-nano'',
      \<lparr>call_api_key = ''sk-1'', call_model = ''gpt-4.1-nano'', messages = [(''user'', '''')],
       max_tokens = None, stream = True\<rparr>]"
  using empty_message_accepted
    [of "[''developer_message'' \<mapsto> JString '''', ''user_message'' \<mapsto> JString '''',
          ''api_key'' \<mapsto> JString ''sk-1'']" "''''" "''''" "''sk-1''" "upstream [] [] []" 0 world0]
  by (simp add: upstream_def MODEL_CANDIDATES_def probe_call_def world0_def optional_model_def)

subsection \<open>The streamed body\<close>

text \<open>
  Claim C3, as the handler has it. When the streaming call returns and the generator
  ends without an exception, the fragments written to the body are exactly the content
  deltas that are not \<open>None\<close>, one fragment for each such chunk, in the order of
  arrival, nothing joined and nothing dropped; a delta that is the empty string is a
  fragment like any other. The body is the concatenation of the deltas, and one
  streaming call is made. For the chunks "Hello", ", ", "world" (and one chunk without
  content) the body is "Hello, world".
\<close>

theorem stream_relays_non_null_deltas:
  assumes "create env (stream_call key working_model content) = Inr (Reply cs fail)"
    and "generate env key working_model content w = ((fragments, None), w')"
  shows "fragments = map the (filter (\<lambda>d. d \<noteq> None) (map hd cs))
    \<and> concat fragments = concat (map (\<lambda>c. case hd c of None \<Rightarrow> [] | Some t \<Rightarrow> t) cs)
    \<and> calls w' = calls w @ [stream_call key working_model content]"
proof -
  from assms have r: "relay cs fail = (fragments, None)"
    and w': "w' = send (stream_call key working_model content) w"
    by (simp_all add: generate_def Let_def)
  from relay_normal_end [OF r] have f: "fragments = map the (filter (\<lambda>d. d \<noteq> None) (map hd cs))"
    by simp
  have "concat (map the (filter (\<lambda>d. d \<noteq> None) (map hd cs))) =
      concat (map (\<lambda>c. case hd c of None \<Rightarrow> [] | Some t \<Rightarrow> t) cs)"
    by (induction cs) (auto split: option.split)
  with f w' show ?thesis by (simp add: send_def)
qed

theorem stream_relays_non_null_deltas_witness:
  "generate (upstream [] [] [[Some ''Hello''], [None], [Some '', ''], [Some ''world'']])
      ''sk-1'' ''gpt-4.1-nano'' ''Hi'' world0 =
     (([''Hello'', '', '', ''world''], None),
      send (stream_call ''sk-1'' ''gpt-4.1-nano'' ''Hi'') world0)
   \<and> concat [''Hello'', '', '', ''world''] = ''Hello, world''"
proof -
  have g: "generate (upstream [] [] [[Some ''Hello''], [None], [Some '', ''], [Some ''world'']])
      ''sk-1'' ''gpt-4.1-nano'' ''Hi'' world0 =
     ((fst (fst (generate (upstream [] [] [[Some ''Hello''], [None], [Some '', ''], [Some ''world'']])
      ''sk-1'' ''gpt-4.1-nano'' ''Hi'' world0)), None),
      send (stream_call ''sk-1'' ''gpt-4.1-nano'' ''Hi'') world0)"
    by (simp add: generate_def upstream_def stream_call_def Let_def)
  have c: "create (upstream [] [] [[Some ''Hello''], [None], [Some '', ''], [Some ''world'']])
      (stream_call ''sk-1'' ''gpt-4.1-nano'' ''Hi'') =
      Inr (Reply [[Some ''Hello''], [None], [Some '', ''], [Some ''world'']] None)"
    by (simp add: upstream_def stream_call_def)
  from stream_relays_non_null_deltas [OF c g] g show ?thesis
    by simp
qed

text \<open>
  The test of the generator is \<open>is not None\<close>: an empty content delta is yielded, so
  for the chunks "Hello", "", "world" three fragments are written, not two.
\<close>

theorem empty_fragment_forwarded:
  "fst (chat (upstream [] [] [[Some ''Hello''], [Some ''''], [Some ''world'']]) request0 world0) =
     StreamingResponse [''Hello'', '''', ''world''] None
   \<and> fst (chat (upstream [] [] [[Some ''Hello''], [Some ''''], [Some ''world'']]) request0 world0) \<noteq>
     StreamingResponse [''Hello'', ''world''] None"
  by (simp add: chat_def chat_try_def upstream_def request0_def MODEL_CANDIDATES_def
      probe_call_def stream_call_def generate_def not_working_def Let_def)

subsection \<open>Letter case of the error text\<close>

text \<open>
  Claim C4. The tests for "quota", "authentication" and "invalid_api_key" are made on
  the lowered text, the test for "model_not_found" on the text as it is: when every
  probe fails with the text "MODEL_NOT_FOUND" the status is 500, with the same text in
  lower case it is 404.
\<close>

theorem model_not_found_case_sensitive:
  "fst (chat (upstream MODEL_CANDIDATES ''MODEL_NOT_FOUND'' []) request0 world0) =
     ErrorResponse 500 ''MODEL_NOT_FOUND''
   \<and> fst (chat (upstream MODEL_CANDIDATES (lower ''MODEL_NOT_FOUND'') []) request0 world0) =
     ErrorResponse 404 ''model_not_found''"
  by (simp add: chat_def chat_try_def upstream_def request0_def MODEL_CANDIDATES_def
      probe_call_def total_failure_def error_message_of_def error_status_def lower_def
      lower_char_def ascii_uppercase_def ascii_lowercase_def Let_def)

end
